theory Spec2Isabelle
  imports Main "HOL-Library.Multiset"
begin

section \<open>The relational store\<close>

text \<open>
  The tables of \<^verbatim>\<open>shared/schema.ts\<close> behind the operations of the data-access
  layer (\<^verbatim>\<open>server/storage.ts\<close>) and the handlers of the route layer
  (\<^verbatim>\<open>server/routes.ts\<close>) modelled below: users, products, favorites, cart items and
  seller applications. Categories, orders and sessions are read by none of them and
  stay out. A table is the list of its rows; a \<^verbatim>\<open>SELECT\<close> without \<^verbatim>\<open>ORDER BY\<close> returns
  the rows in list order, an \<^verbatim>\<open>INSERT\<close> appends, an \<^verbatim>\<open>UPDATE\<close> rewrites rows in
  place and a \<^verbatim>\<open>DELETE\<close> filters. A column without \<^verbatim>\<open>.notNull()\<close> holds an
  \<open>option\<close>, \<open>None\<close> being SQL \<^verbatim>\<open>NULL\<close>. Timestamps are natural numbers and
  the clock (\<^verbatim>\<open>new Date()\<close>, \<^verbatim>\<open>defaultNow()\<close>) is an argument \<open>now\<close> of every
  operation that reads it. Integers are mathematical integers; a value written into an
  \<^verbatim>\<open>integer\<close> column is checked against the 32-bit range of that column type, and
  so is the id by which a product is looked up or a cart row deleted: the store
  refuses a statement with a number outside the range.
\<close>

type_synonym timestamp = nat

record user =
  u_id :: string
  u_email :: "string option"
  u_firstName :: "string option"
  u_lastName :: "string option"
  u_profileImageUrl :: "string option"
  u_role :: string
  u_isApproved :: "bool option"
  u_createdAt :: "timestamp option"
  u_updatedAt :: "timestamp option"

record product =
  p_id :: int
  p_name :: string
  p_description :: string
  p_price :: string
  p_imageUrl :: string
  p_sellerId :: string
  p_categoryId :: int
  p_isApproved :: "bool option"
  p_favoriteCount :: "int option"
  p_createdAt :: "timestamp option"
  p_updatedAt :: "timestamp option"

record favorite =
  f_id :: int
  f_userId :: string
  f_productId :: int
  f_createdAt :: "timestamp option"

record cartItem =
  c_id :: int
  c_userId :: string
  c_productId :: int
  c_quantity :: "int option"
  c_createdAt :: "timestamp option"

record sellerApplication =
  a_id :: int
  a_userId :: string
  a_email :: string
  a_whatsapp :: string
  a_paymentInfo :: string
  a_status :: "string option"
  a_createdAt :: "timestamp option"

text \<open>
  The store: the five tables the operations below touch, and the sequence behind each
  \<^verbatim>\<open>serial\<close> id column (the next value \<^verbatim>\<open>nextval\<close> hands out).
\<close>

record store =
  users :: "user list"
  products :: "product list"
  favorites :: "favorite list"
  cartItems :: "cartItem list"
  sellerApplications :: "sellerApplication list"
  products_id_seq :: int
  favorites_id_seq :: int
  cartItems_id_seq :: int

text \<open>What the store or the libraries in front of it raise.\<close>

datatype error =
    UniqueViolation
  | NotNullViolation
  | NumericValueOutOfRange
  | InvalidTextRepresentation
  | NoValuesToSet

type_synonym 'a result = "(error + 'a) \<times> store"

text \<open>
  A property of a JavaScript object passed to the data-access layer: left out
  (\<^verbatim>\<open>undefined\<close>), \<^verbatim>\<open>null\<close>, or a value.
\<close>

datatype 'a field = Omitted | Null | Given 'a

text \<open>
  The value a nullable column takes from a payload property: an omitted property leaves
  the column at \<open>d\<close> (the column default on \<^verbatim>\<open>INSERT\<close>, the old value in the
  \<^verbatim>\<open>SET\<close> clause of an \<^verbatim>\<open>UPDATE\<close>, which skips \<^verbatim>\<open>undefined\<close> entries).
\<close>

fun assign :: "'a option \<Rightarrow> 'a field \<Rightarrow> 'a option" where
  "assign d Omitted = d"
| "assign d Null = None"
| "assign d (Given v) = Some v"

definition int4 :: "int \<Rightarrow> bool" where
  "int4 n = (- 2147483648 \<le> n \<and> n \<le> 2147483647)"

subsection \<open>ORDER BY ... DESC\<close>

text \<open>
  PostgreSQL treats \<^verbatim>\<open>NULL\<close> as larger than every value, so \<^verbatim>\<open>DESC\<close> puts the
  \<^verbatim>\<open>NULL\<close>s first. SQL leaves the order of rows with equal keys open; the model keeps
  them in table order.
\<close>

fun pg_ge :: "'a::linorder option \<Rightarrow> 'a option \<Rightarrow> bool" where
  "pg_ge None _ = True"
| "pg_ge (Some a) None = False"
| "pg_ge (Some a) (Some b) = (b \<le> a)"

fun insert_desc :: "('r \<Rightarrow> 'a::linorder option) \<Rightarrow> 'r \<Rightarrow> 'r list \<Rightarrow> 'r list" where
  "insert_desc k x [] = [x]"
| "insert_desc k x (y # ys) =
     (if pg_ge (k x) (k y) then x # y # ys else y # insert_desc k x ys)"

definition orderBy_desc :: "('r \<Rightarrow> 'a::linorder option) \<Rightarrow> 'r list \<Rightarrow> 'r list" where
  "orderBy_desc k rows = foldr (insert_desc k) rows []"

section \<open>Data-access layer: users\<close>

text \<open>
  \<^verbatim>\<open>UpsertUser\<close>, the insert type of the \<^verbatim>\<open>users\<close> table: \<^verbatim>\<open>id\<close> is required,
  \<^verbatim>\<open>role\<close> is a string when present, every other property may be left out or be
  \<^verbatim>\<open>null\<close>.
\<close>

record upsertUserData =
  uu_id :: string
  uu_email :: "string field"
  uu_firstName :: "string field"
  uu_lastName :: "string field"
  uu_profileImageUrl :: "string field"
  uu_role :: "string option"
  uu_isApproved :: "bool field"
  uu_createdAt :: "timestamp field"
  uu_updatedAt :: "timestamp field"

text \<open>\<^verbatim>\<open>getUser(id)\<close>: the first row of the result, \<^verbatim>\<open>undefined\<close> when it is empty.\<close>

definition getUser :: "string \<Rightarrow> store \<Rightarrow> user option" where
  "getUser i s = find (\<lambda>u. u_id u = i) (users s)"

text \<open>The row \<^verbatim>\<open>INSERT ... VALUES (userData)\<close> builds, with the column defaults.\<close>

definition new_user :: "timestamp \<Rightarrow> upsertUserData \<Rightarrow> user" where
  "new_user now d =
     \<lparr> u_id = uu_id d,
       u_email = assign None (uu_email d),
       u_firstName = assign None (uu_firstName d),
       u_lastName = assign None (uu_lastName d),
       u_profileImageUrl = assign None (uu_profileImageUrl d),
       u_role = (case uu_role d of None \<Rightarrow> ''buyer'' | Some r \<Rightarrow> r),
       u_isApproved = assign (Some False) (uu_isApproved d),
       u_createdAt = assign (Some now) (uu_createdAt d),
       u_updatedAt = assign (Some now) (uu_updatedAt d) \<rparr>"

text \<open>
  The \<^verbatim>\<open>SET\<close> clause \<^verbatim>\<open>{ ...userData, updatedAt: new Date() }\<close> of the conflict
  branch, applied to the row that is already there.
\<close>

definition merge_user :: "timestamp \<Rightarrow> upsertUserData \<Rightarrow> user \<Rightarrow> user" where
  "merge_user now d r =
     r \<lparr> u_id := uu_id d,
         u_email := assign (u_email r) (uu_email d),
         u_firstName := assign (u_firstName r) (uu_firstName d),
         u_lastName := assign (u_lastName r) (uu_lastName d),
         u_profileImageUrl := assign (u_profileImageUrl r) (uu_profileImageUrl d),
         u_role := (case uu_role d of None \<Rightarrow> u_role r | Some x \<Rightarrow> x),
         u_isApproved := assign (u_isApproved r) (uu_isApproved d),
         u_createdAt := assign (u_createdAt r) (uu_createdAt d),
         u_updatedAt := Some now \<rparr>"

text \<open>
  The \<^verbatim>\<open>email\<close> column is \<^verbatim>\<open>unique()\<close>: writing an address that another row
  holds is refused. \<^verbatim>\<open>NULL\<close>s do not collide.
\<close>

definition email_taken :: "string \<Rightarrow> string field \<Rightarrow> user list \<Rightarrow> bool" where
  "email_taken i e rows =
     (case e of
        Given a \<Rightarrow> list_ex (\<lambda>r. u_id r \<noteq> i \<and> u_email r = Some a) rows
      | _ \<Rightarrow> False)"

definition upsertUser :: "timestamp \<Rightarrow> upsertUserData \<Rightarrow> store \<Rightarrow> user result" where
  "upsertUser now userData s =
     (if email_taken (uu_id userData) (uu_email userData) (users s) then
        (Inl UniqueViolation, s)
      else
        case find (\<lambda>r. u_id r = uu_id userData) (users s) of
          None \<Rightarrow>
            (let user = new_user now userData
             in (Inr user, s\<lparr>users := users s @ [user]\<rparr>))
        | Some old \<Rightarrow>
            (Inr (merge_user now userData old),
             s\<lparr>users :=
                 map (\<lambda>r. if u_id r = uu_id userData then merge_user now userData r else r)
                   (users s)\<rparr>))"

section \<open>Data-access layer: products\<close>

text \<open>
  \<^verbatim>\<open>getProducts(categoryId?)\<close>: the test \<^verbatim>\<open>if (categoryId)\<close> is false for an omitted
  argument and for \<open>0\<close>.
\<close>

definition getProducts :: "int option \<Rightarrow> store \<Rightarrow> product list" where
  "getProducts categoryId s =
     (case categoryId of
        Some c \<Rightarrow>
          if c \<noteq> 0 then
            orderBy_desc p_createdAt
              (filter (\<lambda>p. p_isApproved p = Some True \<and> p_categoryId p = c) (products s))
          else
            orderBy_desc p_createdAt (filter (\<lambda>p. p_isApproved p = Some True) (products s))
      | None \<Rightarrow>
          orderBy_desc p_createdAt (filter (\<lambda>p. p_isApproved p = Some True) (products s)))"

text \<open>
  \<^verbatim>\<open>getProduct(id)\<close>: the first row of the result, \<^verbatim>\<open>undefined\<close> when it is empty.
  The id is compared with the \<^verbatim>\<open>serial\<close> column: for a number outside the column's
  range the store refuses the query, and the call throws.
\<close>

definition getProduct :: "int \<Rightarrow> store \<Rightarrow> error + product option" where
  "getProduct i s =
     (if \<not> int4 i then Inl NumericValueOutOfRange
      else Inr (find (\<lambda>p. p_id p = i) (products s)))"


text \<open>
  \<^verbatim>\<open>InsertProduct\<close> as the route layer passes it: the output of
  \<^verbatim>\<open>insertProductSchema\<close>, which omits \<^verbatim>\<open>id\<close>, \<^verbatim>\<open>createdAt\<close> and \<^verbatim>\<open>updatedAt\<close>.
\<close>

record insertProduct =
  ip_name :: string
  ip_description :: string
  ip_price :: string
  ip_imageUrl :: string
  ip_sellerId :: string
  ip_categoryId :: int
  ip_isApproved :: "bool field"
  ip_favoriteCount :: "int field"

definition field_int4 :: "int field \<Rightarrow> bool" where
  "field_int4 f = (case f of Given n \<Rightarrow> int4 n | _ \<Rightarrow> True)"

text \<open>
  \<^verbatim>\<open>createProduct(product)\<close>. The price column is \<^verbatim>\<open>decimal(10, 2)\<close> and the price
  arrives as text; \<open>numeric_in\<close> stands for the store's conversion of that text, \<open>None\<close>
  when the store refuses it. A value the store cannot convert is refused before the
  statement runs; a clash on the primary key is found after the sequence has advanced.
\<close>

definition createProduct ::
  "(string \<Rightarrow> string option) \<Rightarrow> timestamp \<Rightarrow> insertProduct \<Rightarrow> store \<Rightarrow> product result"
where
  "createProduct numeric_in now product s =
     (case numeric_in (ip_price product) of
        None \<Rightarrow> (Inl InvalidTextRepresentation, s)
      | Some price \<Rightarrow>
          if \<not> int4 (ip_categoryId product) \<or> \<not> field_int4 (ip_favoriteCount product) then
            (Inl NumericValueOutOfRange, s)
          else
            (let n = products_id_seq s;
                 s1 = s\<lparr>products_id_seq := n + 1\<rparr>
             in if list_ex (\<lambda>r. p_id r = n) (products s) then (Inl UniqueViolation, s1)
                else
                  (let newProduct =
                         \<lparr> p_id = n,
                           p_name = ip_name product,
                           p_description = ip_description product,
                           p_price = price,
                           p_imageUrl = ip_imageUrl product,
                           p_sellerId = ip_sellerId product,
                           p_categoryId = ip_categoryId product,
                           p_isApproved = assign (Some False) (ip_isApproved product),
                           p_favoriteCount = assign (Some 0) (ip_favoriteCount product),
                           p_createdAt = Some now,
                           p_updatedAt = Some now \<rparr>
                   in (Inr newProduct, s1\<lparr>products := products s @ [newProduct]\<rparr>))))"

section \<open>Data-access layer: favorites\<close>

text \<open>
  \<^verbatim>\<open>InsertFavorite\<close> as the route layer passes it: \<^verbatim>\<open>{ userId, productId }\<close>, where
  \<^verbatim>\<open>productId\<close> comes unchecked from the request body and is \<open>None\<close> when the body
  has none.
\<close>

record insertFavorite =
  if_userId :: string
  if_productId :: "int option"

text \<open>
  \<^verbatim>\<open>addToFavorites(favorite)\<close>: the insert, then the recount written onto the product
  row. The table declares the pair \<^verbatim>\<open>(userId, productId)\<close> as primary key, next to
  the \<^verbatim>\<open>serial\<close> primary key \<^verbatim>\<open>id\<close>. Nothing is caught: a refused insert leaves
  before the recount.
\<close>

definition addToFavorites :: "timestamp \<Rightarrow> insertFavorite \<Rightarrow> store \<Rightarrow> favorite result" where
  "addToFavorites now favorite s =
     (let n = favorites_id_seq s;
          s1 = s\<lparr>favorites_id_seq := n + 1\<rparr>
      in case if_productId favorite of
           None \<Rightarrow> (Inl NotNullViolation, s1)
         | Some productId \<Rightarrow>
             if \<not> int4 productId then (Inl NumericValueOutOfRange, s)
             else if list_ex (\<lambda>f. f_id f = n \<or>
                        (f_userId f = if_userId favorite \<and> f_productId f = productId))
                      (favorites s)
             then (Inl UniqueViolation, s1)
             else
               (let newFavorite =
                      \<lparr> f_id = n,
                        f_userId = if_userId favorite,
                        f_productId = productId,
                        f_createdAt = Some now \<rparr>;
                    s2 = s1\<lparr>favorites := favorites s @ [newFavorite]\<rparr>;
                    count = filter (\<lambda>f. f_productId f = productId) (favorites s2);
                    s3 = s2\<lparr>products :=
                              map (\<lambda>p. if p_id p = productId
                                        then p\<lparr>p_favoriteCount := Some (int (length count))\<rparr>
                                        else p)
                                (products s2)\<rparr>
                in (Inr newFavorite, s3)))"

text \<open>\<^verbatim>\<open>removeFromFavorites(userId, productId)\<close>: the delete, then the same recount.\<close>

definition removeFromFavorites :: "string \<Rightarrow> int \<Rightarrow> store \<Rightarrow> store" where
  "removeFromFavorites userId productId s =
     (let s1 = s\<lparr>favorites :=
                   filter (\<lambda>f. \<not> (f_userId f = userId \<and> f_productId f = productId))
                     (favorites s)\<rparr>;
          count = filter (\<lambda>f. f_productId f = productId) (favorites s1)
      in s1\<lparr>products :=
               map (\<lambda>p. if p_id p = productId
                         then p\<lparr>p_favoriteCount := Some (int (length count))\<rparr>
                         else p)
                 (products s1)\<rparr>)"

section \<open>Data-access layer: cart\<close>

text \<open>
  \<^verbatim>\<open>InsertCartItem\<close> as the route layer passes it: \<^verbatim>\<open>{ userId, productId, quantity }\<close>.
\<close>

record insertCartItem =
  ic_userId :: string
  ic_productId :: "int option"
  ic_quantity :: "int field"

text \<open>
  JavaScript's \<^verbatim>\<open>x || d\<close> on a number that may be missing: \<^verbatim>\<open>undefined\<close>,
  \<^verbatim>\<open>null\<close> and \<open>0\<close> are falsy and give \<open>d\<close>.
\<close>

fun stored_or :: "int option \<Rightarrow> int \<Rightarrow> int" where
  "stored_or None d = d"
| "stored_or (Some n) d = (if n = 0 then d else n)"

fun field_or :: "int field \<Rightarrow> int \<Rightarrow> int" where
  "field_or Omitted d = d"
| "field_or Null d = d"
| "field_or (Given n) d = (if n = 0 then d else n)"

text \<open>
  \<^verbatim>\<open>addToCart(cartItem)\<close>: look the pair up; raise the quantity of the row found, or
  insert. Both branches return the first row of \<^verbatim>\<open>returning()\<close>.
\<close>

definition addToCart :: "timestamp \<Rightarrow> insertCartItem \<Rightarrow> store \<Rightarrow> cartItem option result" where
  "addToCart now cartItem s =
     (case find (\<lambda>c. c_userId c = ic_userId cartItem \<and>
                      Some (c_productId c) = ic_productId cartItem) (cartItems s) of
        Some existingItem \<Rightarrow>
          (let quantity = stored_or (c_quantity existingItem) 0 + field_or (ic_quantity cartItem) 1
           in if \<not> int4 quantity then (Inl NumericValueOutOfRange, s)
              else
                (let rows = map (\<lambda>c. if c_id c = c_id existingItem
                                      then c\<lparr>c_quantity := Some quantity\<rparr> else c)
                              (cartItems s)
                 in (Inr (find (\<lambda>c. c_id c = c_id existingItem) rows),
                     s\<lparr>cartItems := rows\<rparr>)))
      | None \<Rightarrow>
          (let n = cartItems_id_seq s;
               s1 = s\<lparr>cartItems_id_seq := n + 1\<rparr>
           in case ic_productId cartItem of
                None \<Rightarrow> (Inl NotNullViolation, s1)
              | Some productId \<Rightarrow>
                  if \<not> int4 productId \<or> \<not> field_int4 (ic_quantity cartItem) then
                    (Inl NumericValueOutOfRange, s)
                  else if list_ex (\<lambda>c. c_id c = n) (cartItems s) then
                    (Inl UniqueViolation, s1)
                  else
                    (let newCartItem =
                           \<lparr> c_id = n,
                             c_userId = ic_userId cartItem,
                             c_productId = productId,
                             c_quantity = assign (Some 1) (ic_quantity cartItem),
                             c_createdAt = Some now \<rparr>
                     in (Inr (Some newCartItem),
                         s1\<lparr>cartItems := cartItems s @ [newCartItem]\<rparr>))))"

text \<open>
  \<^verbatim>\<open>removeFromCart(id)\<close>: one \<^verbatim>\<open>DELETE\<close> by row id, refused by the store for a
  number outside the range of the id column.
\<close>

definition removeFromCart :: "int \<Rightarrow> store \<Rightarrow> unit result" where
  "removeFromCart i s =
     (if \<not> int4 i then (Inl NumericValueOutOfRange, s)
      else (Inr (), s\<lparr>cartItems := filter (\<lambda>c. c_id c \<noteq> i) (cartItems s)\<rparr>))"

section \<open>Data-access layer: seller applications\<close>

text \<open>
  \<^verbatim>\<open>updateSellerApplicationStatus(id, status)\<close>: the query builder refuses a
  \<^verbatim>\<open>SET\<close> clause whose only entry is \<^verbatim>\<open>undefined\<close>. The result is the first updated
  row, \<^verbatim>\<open>undefined\<close> when no row has the id.
\<close>

definition updateSellerApplicationStatus ::
  "int \<Rightarrow> string field \<Rightarrow> store \<Rightarrow> sellerApplication option result"
where
  "updateSellerApplicationStatus i status s =
     (case status of
        Omitted \<Rightarrow> (Inl NoValuesToSet, s)
      | _ \<Rightarrow>
          (let rows = map (\<lambda>a. if a_id a = i then a\<lparr>a_status := assign None status\<rparr> else a)
                        (sellerApplications s)
           in (Inr (find (\<lambda>a. a_id a = i) rows), s\<lparr>sellerApplications := rows\<rparr>)))"

section \<open>Route layer\<close>

text \<open>
  A handler runs behind \<^verbatim>\<open>isAuthenticated\<close>; \<open>userId\<close> is the identity
  \<^verbatim>\<open>req.user.claims.sub\<close> of the session. It answers \<^verbatim>\<open>res.json(x)\<close> or
  \<^verbatim>\<open>res.status(n).json({ message })\<close>; its \<^verbatim>\<open>catch\<close> turns whatever was thrown into
  status 500 with the handler's fixed message. A path parameter has gone through
  \<^verbatim>\<open>parseInt\<close>: \<open>None\<close> is \<^verbatim>\<open>NaN\<close>, which the store refuses as an integer.
\<close>

datatype 'a response = Json 'a | Status nat string

text \<open>
  \<^verbatim>\<open>GET /api/products/:id\<close>, open to everyone: 404 when \<^verbatim>\<open>getProduct\<close> returns
  nothing, 500 when it throws.
\<close>

definition get_api_products_id :: "int option \<Rightarrow> store \<Rightarrow> product response" where
  "get_api_products_id i s =
     (case i of
        None \<Rightarrow> Status 500 ''Failed to fetch product''
      | Some n \<Rightarrow>
          (case getProduct n s of
             Inl e \<Rightarrow> Status 500 ''Failed to fetch product''
           | Inr None \<Rightarrow> Status 404 ''Product not found''
           | Inr (Some product) \<Rightarrow> Json product))"

text \<open>
  The body of \<^verbatim>\<open>POST /api/products\<close>, property by property, and
  \<^verbatim>\<open>insertProductSchema.parse\<close>: the columns that are \<^verbatim>\<open>notNull()\<close> without a default
  are required, the two others are optional and nullable, unknown keys are dropped.
\<close>

record productBody =
  b_name :: "string field"
  b_description :: "string field"
  b_price :: "string field"
  b_imageUrl :: "string field"
  b_sellerId :: "string field"
  b_categoryId :: "int field"
  b_isApproved :: "bool field"
  b_favoriteCount :: "int field"

definition insertProductSchema_parse :: "productBody \<Rightarrow> insertProduct option" where
  "insertProductSchema_parse body =
     (case (b_name body, b_description body, b_price body, b_imageUrl body,
            b_sellerId body, b_categoryId body) of
        (Given name, Given description, Given price, Given imageUrl,
         Given sellerId, Given categoryId) \<Rightarrow>
          Some \<lparr> ip_name = name,
                 ip_description = description,
                 ip_price = price,
                 ip_imageUrl = imageUrl,
                 ip_sellerId = sellerId,
                 ip_categoryId = categoryId,
                 ip_isApproved = b_isApproved body,
                 ip_favoriteCount = b_favoriteCount body \<rparr>
      | _ \<Rightarrow> None)"

definition post_api_products ::
  "(string \<Rightarrow> string option) \<Rightarrow> timestamp \<Rightarrow> string \<Rightarrow> productBody \<Rightarrow> store
     \<Rightarrow> product response \<times> store"
where
  "post_api_products numeric_in now userId body s =
     (case getUser userId s of
        None \<Rightarrow> (Status 403 ''Only approved sellers can create products'', s)
      | Some user \<Rightarrow>
          if u_role user \<noteq> ''seller'' \<and> u_role user \<noteq> ''admin'' then
            (Status 403 ''Only approved sellers can create products'', s)
          else
            (case insertProductSchema_parse body of
               None \<Rightarrow> (Status 500 ''Failed to create product'', s)
             | Some productData \<Rightarrow>
                 (case createProduct numeric_in now
                         (productData\<lparr> ip_sellerId := userId,
                                       ip_isApproved := Given (u_role user = ''admin'') \<rparr>) s of
                    (Inl e, s') \<Rightarrow> (Status 500 ''Failed to create product'', s')
                  | (Inr product, s') \<Rightarrow> (Json product, s'))))"

definition post_api_favorites ::
  "timestamp \<Rightarrow> string \<Rightarrow> int option \<Rightarrow> store \<Rightarrow> favorite response \<times> store"
where
  "post_api_favorites now userId productId s =
     (case addToFavorites now \<lparr> if_userId = userId, if_productId = productId \<rparr> s of
        (Inl e, s') \<Rightarrow> (Status 500 ''Failed to add to favorites'', s')
      | (Inr favorite, s') \<Rightarrow> (Json favorite, s'))"

definition delete_api_favorites ::
  "string \<Rightarrow> int option \<Rightarrow> store \<Rightarrow> string response \<times> store"
where
  "delete_api_favorites userId productId s =
     (case productId of
        None \<Rightarrow> (Status 500 ''Failed to remove from favorites'', s)
      | Some p \<Rightarrow> (Json ''Removed from favorites'', removeFromFavorites userId p s))"

text \<open>
  \<^verbatim>\<open>POST /api/cart\<close>: the destructuring default \<^verbatim>\<open>quantity = 1\<close> applies to a body
  without the property, not to \<^verbatim>\<open>null\<close>.
\<close>

definition post_api_cart ::
  "timestamp \<Rightarrow> string \<Rightarrow> int option \<Rightarrow> int field \<Rightarrow> store
     \<Rightarrow> cartItem option response \<times> store"
where
  "post_api_cart now userId productId quantity s =
     (case addToCart now
             \<lparr> ic_userId = userId, ic_productId = productId,
               ic_quantity = (case quantity of Omitted \<Rightarrow> Given 1 | q \<Rightarrow> q) \<rparr> s of
        (Inl e, s') \<Rightarrow> (Status 500 ''Failed to add to cart'', s')
      | (Inr cartItem, s') \<Rightarrow> (Json cartItem, s'))"

text \<open>\<^verbatim>\<open>DELETE /api/cart/:id\<close>: the handler does not read the session identity.\<close>

definition delete_api_cart ::
  "string \<Rightarrow> int option \<Rightarrow> store \<Rightarrow> string response \<times> store"
where
  "delete_api_cart userId i s =
     (case i of
        None \<Rightarrow> (Status 500 ''Failed to remove from cart'', s)
      | Some n \<Rightarrow>
          (case removeFromCart n s of
             (Inl e, s') \<Rightarrow> (Status 500 ''Failed to remove from cart'', s')
           | (Inr u, s') \<Rightarrow> (Json ''Removed from cart'', s')))"

text \<open>
  \<^verbatim>\<open>PATCH /api/admin/applications/:id\<close>. With status \<^verbatim>\<open>'approved'\<close> and no
  application of that id, reading \<^verbatim>\<open>application.userId\<close> throws.
\<close>

definition patch_api_admin_applications ::
  "timestamp \<Rightarrow> string \<Rightarrow> int option \<Rightarrow> string field \<Rightarrow> store
     \<Rightarrow> sellerApplication option response \<times> store"
where
  "patch_api_admin_applications now userId i status s =
     (case getUser userId s of
        None \<Rightarrow> (Status 403 ''Admin access required'', s)
      | Some user \<Rightarrow>
          if u_role user \<noteq> ''admin'' then (Status 403 ''Admin access required'', s)
          else
            (case i of
               None \<Rightarrow> (Status 500 ''Failed to update application'', s)
             | Some n \<Rightarrow>
                 (case updateSellerApplicationStatus n status s of
                    (Inl e, s1) \<Rightarrow> (Status 500 ''Failed to update application'', s1)
                  | (Inr application, s1) \<Rightarrow>
                      if status = Given ''approved'' then
                        (case application of
                           None \<Rightarrow> (Status 500 ''Failed to update application'', s1)
                         | Some a \<Rightarrow>
                             (case upsertUser now
                                     \<lparr> uu_id = a_userId a,
                                       uu_email = Omitted,
                                       uu_firstName = Omitted,
                                       uu_lastName = Omitted,
                                       uu_profileImageUrl = Omitted,
                                       uu_role = Some ''seller'',
                                       uu_isApproved = Given True,
                                       uu_createdAt = Omitted,
                                       uu_updatedAt = Omitted \<rparr> s1 of
                                (Inl e, s2) \<Rightarrow> (Status 500 ''Failed to update application'', s2)
                              | (Inr u, s2) \<Rightarrow> (Json application, s2)))
                      else (Json application, s1))))"

section \<open>Sequences of favorite operations\<close>

datatype fav_op =
    AddToFavorites timestamp insertFavorite
  | RemoveFromFavorites string int

fun run_fav_op :: "fav_op \<Rightarrow> store \<Rightarrow> store" where
  "run_fav_op (AddToFavorites now favorite) s = snd (addToFavorites now favorite s)"
| "run_fav_op (RemoveFromFavorites userId productId) s = removeFromFavorites userId productId s"

fun run_fav_ops :: "fav_op list \<Rightarrow> store \<Rightarrow> store" where
  "run_fav_ops [] s = s"
| "run_fav_ops (x # xs) s = run_fav_ops xs (run_fav_op x s)"

text \<open>The count stored on every product row with id \<open>P\<close> is the number of its favorites.\<close>

definition favoriteCount_ok :: "store \<Rightarrow> int \<Rightarrow> bool" where
  "favoriteCount_ok s P =
     list_all (\<lambda>p. p_id p = P \<longrightarrow>
                 p_favoriteCount p =
                   Some (int (length (filter (\<lambda>f. f_productId f = P) (favorites s)))))
       (products s)"

section \<open>The requested amount, and example stores\<close>

text \<open>The amount a cart request asks for: the quantity given, 1 when there is none.\<close>

definition requested :: "int field \<Rightarrow> int" where
  "requested q = (case q of Given n \<Rightarrow> n | _ \<Rightarrow> 1)"

text \<open>A store right after the tables were created: no rows, every sequence at 1.\<close>

definition empty_store :: store where
  "empty_store =
     \<lparr> users = [], products = [], favorites = [], cartItems = [], sellerApplications = [],
       products_id_seq = 1, favorites_id_seq = 1, cartItems_id_seq = 1 \<rparr>"

definition demo_product ::
  "int \<Rightarrow> string \<Rightarrow> bool option \<Rightarrow> int option \<Rightarrow> timestamp option \<Rightarrow> product"
where
  "demo_product i seller approved n created =
     \<lparr> p_id = i, p_name = ''lamp'', p_description = ''a lamp'', p_price = ''9.99'',
       p_imageUrl = ''lamp.png'', p_sellerId = seller, p_categoryId = 3,
       p_isApproved = approved, p_favoriteCount = n,
       p_createdAt = created, p_updatedAt = created \<rparr>"

definition demo_user :: "string \<Rightarrow> string \<Rightarrow> user" where
  "demo_user i role =
     \<lparr> u_id = i, u_email = Some (i @ ''@example.org''), u_firstName = Some ''Ada'',
       u_lastName = Some ''Lee'', u_profileImageUrl = Some ''ada.png'', u_role = role,
       u_isApproved = Some False, u_createdAt = Some 1, u_updatedAt = Some 1 \<rparr>"

text \<open>Three products: the first waits for approval, the two others are listed.\<close>

definition catalogue_store :: store where
  "catalogue_store =
     empty_store
       \<lparr> products :=
           [demo_product 1 ''bob'' (Some False) (Some 0) (Some 50),
            demo_product 2 ''bob'' (Some True) (Some 0) (Some 30),
            demo_product 3 ''eve'' (Some True) (Some 0) (Some 70)],
         products_id_seq := 4 \<rparr>"

text \<open>One listed product without favorites.\<close>

definition lamp_store :: store where
  "lamp_store =
     empty_store
       \<lparr> products := [demo_product 7 ''bob'' (Some True) (Some 0) (Some 1)],
         products_id_seq := 8 \<rparr>"

text \<open>An administrator, a buyer with a pending seller application, and a seller.\<close>

definition staff_store :: store where
  "staff_store =
     empty_store
       \<lparr> users := [demo_user ''root'' ''admin'', demo_user ''alice'' ''buyer'',
                   demo_user ''bob'' ''seller''],
         sellerApplications :=
           [\<lparr> a_id = 1, a_userId = ''alice'', a_email = ''alice@example.org'',
              a_whatsapp = ''555'', a_paymentInfo = ''iban'', a_status = Some ''pending'',
              a_createdAt = Some 5 \<rparr>] \<rparr>"

text \<open>A request body that names another seller and asks for approval.\<close>

definition lamp_body :: productBody where
  "lamp_body =
     \<lparr> b_name = Given ''lamp'', b_description = Given ''a lamp'', b_price = Given ''9.99'',
       b_imageUrl = Given ''lamp.png'', b_sellerId = Given ''mallory'', b_categoryId = Given 3,
       b_isApproved = Given True, b_favoriteCount = Omitted \<rparr>"

text \<open>One cart row, owned by \<open>bob\<close>.\<close>

definition bob_cart_store :: store where
  "bob_cart_store =
     empty_store
       \<lparr> cartItems := [\<lparr> c_id = 1, c_userId = ''bob'', c_productId = 7, c_quantity = Some 2,
                         c_createdAt = Some 1 \<rparr>],
         cartItems_id_seq := 2 \<rparr>"


section \<open>Properties\<close>


lemma pg_ge_total: "pg_ge a b \<or> pg_ge b a"
  by (cases a; cases b) auto

lemma pg_ge_trans: "pg_ge a b \<Longrightarrow> pg_ge b c \<Longrightarrow> pg_ge a c"
  by (cases a; cases b; cases c) auto

lemma set_insert_desc: "set (insert_desc k x ys) = insert x (set ys)"
  by (induction ys) auto

lemma mset_insert_desc: "mset (insert_desc k x ys) = add_mset x (mset ys)"
  by (induction ys) auto

lemma sorted_insert_desc:
  "sorted_wrt (\<lambda>a b. pg_ge (k a) (k b)) ys \<Longrightarrow>
   sorted_wrt (\<lambda>a b. pg_ge (k a) (k b)) (insert_desc k x ys)"
proof (induction ys)
  case Nil
  show ?case by simp
next
  case (Cons y ys)
  show ?case
  proof (cases "pg_ge (k x) (k y)")
    case True
    with Cons.prems show ?thesis
      by (auto intro: pg_ge_trans)
  next
    case False
    then have "pg_ge (k y) (k x)"
      using pg_ge_total by blast
    with False Cons show ?thesis
      by (auto simp: set_insert_desc)
  qed
qed

lemma mset_orderBy_desc: "mset (orderBy_desc k rows) = mset rows"
  by (induction rows) (simp_all add: orderBy_desc_def mset_insert_desc)

lemma set_orderBy_desc: "set (orderBy_desc k rows) = set rows"
  by (induction rows) (simp_all add: orderBy_desc_def set_insert_desc)

lemma sorted_orderBy_desc: "sorted_wrt (\<lambda>a b. pg_ge (k a) (k b)) (orderBy_desc k rows)"
  by (induction rows) (simp_all add: orderBy_desc_def sorted_insert_desc)


subsection \<open>Lookups\<close>

lemma find_distinct_key:
  "distinct (map k xs) \<Longrightarrow> x \<in> set xs \<Longrightarrow> find (\<lambda>y. k y = k x) xs = Some x"
  by (induction xs) (auto simp: image_iff)

lemma find_None_list_ex: "\<not> list_ex P xs \<Longrightarrow> find P xs = None"
  by (simp add: find_None_iff list_ex_iff)

lemma find_append_new: "\<not> list_ex P xs \<Longrightarrow> P x \<Longrightarrow> find P (xs @ [x]) = Some x"
  by (induction xs) auto

lemma filter_append_new: "\<not> list_ex P xs \<Longrightarrow> P x \<Longrightarrow> filter P (xs @ [x]) = [x]"
  by (induction xs) auto

lemma list_all_map_iff: "list_all P (map f xs) = (\<forall>x\<in>set xs. P (f x))"
  by (simp add: list_all_iff)

subsection \<open>Favorite counts\<close>

lemma removeFromFavorites_establishes: "favoriteCount_ok (removeFromFavorites u P s) P"
  by (simp add: favoriteCount_ok_def removeFromFavorites_def Let_def list_all_map_iff)

lemma removeFromFavorites_other:
  assumes ne: "Q \<noteq> P" and ok: "favoriteCount_ok s Q"
  shows "favoriteCount_ok (removeFromFavorites u P s) Q"
proof -
  have "filter (\<lambda>f. f_productId f = Q)
          (filter (\<lambda>f. \<not> (f_userId f = u \<and> f_productId f = P)) (favorites s))
        = filter (\<lambda>f. f_productId f = Q) (favorites s)"
    using ne by (auto intro: filter_cong)
  with ne ok show ?thesis
    by (simp add: favoriteCount_ok_def removeFromFavorites_def Let_def list_all_map_iff)
       (simp add: list_all_iff)
qed

lemma removeFromFavorites_preserves:
  "favoriteCount_ok s Q \<Longrightarrow> favoriteCount_ok (removeFromFavorites u P s) Q"
  by (cases "Q = P") (simp_all add: removeFromFavorites_establishes removeFromFavorites_other)

lemma addToFavorites_fail_tables:
  "addToFavorites now fav s = (Inl e, s') \<Longrightarrow>
   favorites s' = favorites s \<and> products s' = products s"
  by (auto simp: addToFavorites_def Let_def split: option.splits if_splits)

lemma addToFavorites_success:
  "addToFavorites now fav s = (Inr f, s') \<Longrightarrow>
   \<exists>P. if_productId fav = Some P \<and>
     f = \<lparr> f_id = favorites_id_seq s, f_userId = if_userId fav, f_productId = P,
           f_createdAt = Some now \<rparr> \<and>
     favorites s' = favorites s @ [f] \<and>
     products s' =
       map (\<lambda>p. if p_id p = P
                 then p\<lparr>p_favoriteCount :=
                          Some (int (length (filter (\<lambda>g. f_productId g = P)
                                              (favorites s @ [f]))))\<rparr>
                 else p) (products s)"
  by (auto simp: addToFavorites_def Let_def split: option.splits if_splits)

lemma addToFavorites_establishes:
  "addToFavorites now fav s = (Inr f, s') \<Longrightarrow> if_productId fav = Some P \<Longrightarrow>
   favoriteCount_ok s' P"
  by (drule addToFavorites_success) (auto simp: favoriteCount_ok_def list_all_map_iff)

lemma addToFavorites_other:
  "addToFavorites now fav s = (Inr f, s') \<Longrightarrow> if_productId fav \<noteq> Some Q \<Longrightarrow>
   favoriteCount_ok s Q \<Longrightarrow> favoriteCount_ok s' Q"
  by (drule addToFavorites_success)
     (auto simp: favoriteCount_ok_def list_all_map_iff, auto simp: list_all_iff)

lemma addToFavorites_preserves:
  assumes ok: "favoriteCount_ok s Q"
  shows "favoriteCount_ok (snd (addToFavorites now fav s)) Q"
proof (cases "addToFavorites now fav s")
  case (Pair r s')
  show ?thesis
  proof (cases r)
    case (Inl e)
    with Pair have "favorites s' = favorites s \<and> products s' = products s"
      using addToFavorites_fail_tables by blast
    then show ?thesis using Pair ok by (simp add: favoriteCount_ok_def)
  next
    case (Inr f)
    then show ?thesis using Pair ok
      by (cases "if_productId fav = Some Q")
         (auto dest: addToFavorites_establishes addToFavorites_other)
  qed
qed

lemma run_fav_op_preserves: "favoriteCount_ok s Q \<Longrightarrow> favoriteCount_ok (run_fav_op x s) Q"
  by (cases x) (simp_all add: addToFavorites_preserves removeFromFavorites_preserves)

lemma run_fav_ops_preserves: "favoriteCount_ok s Q \<Longrightarrow> favoriteCount_ok (run_fav_ops xs s) Q"
  by (induction xs arbitrary: s) (simp_all add: run_fav_op_preserves)

text \<open>
  C1. A run of \<^verbatim>\<open>addToFavorites\<close> and \<^verbatim>\<open>removeFromFavorites\<close> calls, one after the
  other, keeps the count stored on the rows of product \<open>P\<close> equal to the number of
  favorite rows of \<open>P\<close>. Each of the two operations writes the recount itself:
  \<^verbatim>\<open>removeFromFavorites\<close> on \<open>P\<close> leaves the count right whatever it was before and
  whether or not the pair was there, and so does every \<^verbatim>\<open>addToFavorites\<close> on \<open>P\<close>
  that goes through.
\<close>

theorem favoriteCount_is_number_of_favorites:
  "(favoriteCount_ok s P \<longrightarrow> favoriteCount_ok (run_fav_ops ops s) P)
   \<and> favoriteCount_ok (removeFromFavorites u P s) P
   \<and> (\<forall>f s'. addToFavorites now \<lparr> if_userId = u, if_productId = Some P \<rparr> s = (Inr f, s')
               \<longrightarrow> favoriteCount_ok s' P)"
proof (intro conjI allI impI)
  assume "favoriteCount_ok s P"
  then show "favoriteCount_ok (run_fav_ops ops s) P"
    by (rule run_fav_ops_preserves)
next
  show "favoriteCount_ok (removeFromFavorites u P s) P"
    by (rule removeFromFavorites_establishes)
next
  fix f s'
  assume "addToFavorites now \<lparr> if_userId = u, if_productId = Some P \<rparr> s = (Inr f, s')"
  then show "favoriteCount_ok s' P"
    by (rule addToFavorites_establishes) simp
qed

theorem favoriteCount_is_number_of_favorites_witness:
  "favoriteCount_ok lamp_store 7
   \<and> map p_favoriteCount
       (products
          (run_fav_ops
             [AddToFavorites 2 \<lparr> if_userId = ''alice'', if_productId = Some 7 \<rparr>,
              AddToFavorites 3 \<lparr> if_userId = ''carol'', if_productId = Some 7 \<rparr>,
              AddToFavorites 4 \<lparr> if_userId = ''alice'', if_productId = Some 7 \<rparr>,
              RemoveFromFavorites ''alice'' 7,
              RemoveFromFavorites ''dave'' 7]
             lamp_store)) = [Some 1]
   \<and> map f_userId
       (favorites
          (run_fav_ops
             [AddToFavorites 2 \<lparr> if_userId = ''alice'', if_productId = Some 7 \<rparr>,
              AddToFavorites 3 \<lparr> if_userId = ''carol'', if_productId = Some 7 \<rparr>,
              AddToFavorites 4 \<lparr> if_userId = ''alice'', if_productId = Some 7 \<rparr>,
              RemoveFromFavorites ''alice'' 7,
              RemoveFromFavorites ''dave'' 7]
             lamp_store)) = [''carol'']"
  using favoriteCount_is_number_of_favorites
          [of lamp_store 7
              "[AddToFavorites 2 \<lparr> if_userId = ''alice'', if_productId = Some 7 \<rparr>,
                AddToFavorites 3 \<lparr> if_userId = ''carol'', if_productId = Some 7 \<rparr>,
                AddToFavorites 4 \<lparr> if_userId = ''alice'', if_productId = Some 7 \<rparr>,
                RemoveFromFavorites ''alice'' 7,
                RemoveFromFavorites ''dave'' 7]" "''dave''" 2]
  by (simp add: favoriteCount_ok_def lamp_store_def empty_store_def demo_product_def
        addToFavorites_def removeFromFavorites_def Let_def int4_def)

subsection \<open>Cart rows\<close>

lemma addToCart_first:
  assumes "\<not> list_ex (\<lambda>c. c_userId c = u \<and> c_productId c = p) (cartItems s)"
    and "\<not> list_ex (\<lambda>c. c_id c = cartItems_id_seq s) (cartItems s)"
    and "int4 p" and "field_int4 q"
  shows "addToCart now \<lparr> ic_userId = u, ic_productId = Some p, ic_quantity = q \<rparr> s =
           (Inr (Some \<lparr> c_id = cartItems_id_seq s, c_userId = u, c_productId = p,
                        c_quantity = assign (Some 1) q, c_createdAt = Some now \<rparr>),
            s\<lparr> cartItems_id_seq := cartItems_id_seq s + 1,
               cartItems := cartItems s @
                 [\<lparr> c_id = cartItems_id_seq s, c_userId = u, c_productId = p,
                    c_quantity = assign (Some 1) q, c_createdAt = Some now \<rparr>] \<rparr>)"
  using assms by (simp add: addToCart_def find_None_list_ex Let_def)

lemma map_update_new:
  "\<not> list_ex (\<lambda>c. c_id c = c_id x) xs \<Longrightarrow>
   map (\<lambda>c. if c_id c = c_id x then f c else c) (xs @ [x]) = xs @ [f x]"
  by (induction xs) auto

lemma addToCart_second:
  assumes "\<not> list_ex (\<lambda>c. c_userId c = u \<and> c_productId c = p) rows"
    and "\<not> list_ex (\<lambda>c. c_id c = n) rows"
    and "int4 (stored_or q0 0 + field_or q 1)"
    and "cartItems s = rows @ [\<lparr> c_id = n, c_userId = u, c_productId = p,
                    c_quantity = q0, c_createdAt = t \<rparr>]"
  shows "addToCart now \<lparr> ic_userId = u, ic_productId = Some p, ic_quantity = q \<rparr> s =
           (Inr (Some \<lparr> c_id = n, c_userId = u, c_productId = p,
                        c_quantity = Some (stored_or q0 0 + field_or q 1), c_createdAt = t \<rparr>),
            s\<lparr> cartItems := rows @
                 [\<lparr> c_id = n, c_userId = u, c_productId = p,
                    c_quantity = Some (stored_or q0 0 + field_or q 1), c_createdAt = t \<rparr>] \<rparr>)"
proof -
  let ?x = "\<lparr> c_id = n, c_userId = u, c_productId = p, c_quantity = q0, c_createdAt = t \<rparr>"
  let ?y = "\<lparr> c_id = n, c_userId = u, c_productId = p,
              c_quantity = Some (stored_or q0 0 + field_or q 1), c_createdAt = t \<rparr>"
  have f: "find (\<lambda>c. c_userId c = u \<and> Some (c_productId c) = Some p) (cartItems s) = Some ?x"
    using assms(1,4) find_append_new[of "\<lambda>c. c_userId c = u \<and> c_productId c = p" rows ?x]
    by simp
  have m: "map (\<lambda>c. if c_id c = n
                    then c\<lparr>c_quantity := Some (stored_or q0 0 + field_or q 1)\<rparr> else c)
             (rows @ [?x]) = rows @ [?y]"
    using assms(2)
      map_update_new[of ?x rows "\<lambda>c. c\<lparr>c_quantity := Some (stored_or q0 0 + field_or q 1)\<rparr>"]
    by simp
  have g: "find (\<lambda>c. c_id c = n) (rows @ [?y]) = Some ?y"
    using assms(2) find_append_new[of "\<lambda>c. c_id c = n" rows ?y] by simp
  show ?thesis
    using assms(3,4) f m g by (simp add: addToCart_def Let_def)
qed

lemma post_api_cart_default:
  "post_api_cart now u p Omitted s = post_api_cart now u p (Given 1) s"
  by (simp add: post_api_cart_def)

lemma stored_requested: "q \<noteq> Null \<Longrightarrow> stored_or (assign (Some 1) q) 0 = requested q"
  by (cases q) (simp_all add: requested_def)

lemma field_requested: "q \<noteq> Given 0 \<Longrightarrow> field_or q 1 = requested q"
  by (cases q) (simp_all add: requested_def)

text \<open>
  Where the sum leaves the range of the column the store refuses the update and the
  row stays; a first quantity \<^verbatim>\<open>null\<close> is stored as \<^verbatim>\<open>NULL\<close> and counts as 0 in the
  second call.
\<close>

lemma addToCart_sum_out_of_range:
  "addToCart 2 \<lparr> ic_userId = ''alice'', ic_productId = Some 7, ic_quantity = Given 1 \<rparr>
     (snd (addToCart 1
             \<lparr> ic_userId = ''alice'', ic_productId = Some 7, ic_quantity = Given 2147483647 \<rparr>
             empty_store))
   = (Inl NumericValueOutOfRange,
      empty_store
        \<lparr> cartItems_id_seq := 2,
          cartItems := [\<lparr> c_id = 1, c_userId = ''alice'', c_productId = 7,
                          c_quantity = Some 2147483647, c_createdAt = Some 1 \<rparr>] \<rparr>)"
  by (simp add: addToCart_def empty_store_def Let_def int4_def field_int4_def)

lemma addToCart_null_then_three:
  "map c_quantity
     (cartItems
        (snd (addToCart 2
                \<lparr> ic_userId = ''alice'', ic_productId = Some 7, ic_quantity = Given 3 \<rparr>
                (snd (addToCart 1
                        \<lparr> ic_userId = ''alice'', ic_productId = Some 7, ic_quantity = Null \<rparr>
                        empty_store)))))
   = [Some 3]"
  by (simp add: addToCart_def empty_store_def Let_def int4_def field_int4_def)

text \<open>
  C2, as stated, fails: after adding 2 of a product to an empty cart, a second
  \<^verbatim>\<open>addToCart\<close> with quantity 0 leaves the row at 3, not at 2 + 0, because
  \<^verbatim>\<open>cartItem.quantity || 1\<close> takes 0 for a missing quantity.
\<close>

theorem addToCart_zero_counts_as_one:
  "map c_quantity
     (cartItems
        (snd (addToCart 2
                \<lparr> ic_userId = ''alice'', ic_productId = Some 7, ic_quantity = Given 0 \<rparr>
                (snd (addToCart 1
                        \<lparr> ic_userId = ''alice'', ic_productId = Some 7, ic_quantity = Given 2 \<rparr>
                        empty_store)))))
   = [Some 3]
   \<and> (3::int) \<noteq> 2 + 0"
  by (simp add: addToCart_def empty_store_def Let_def int4_def field_int4_def)

text \<open>
  C2, amended. In a store without a cart row for \<open>(u, p)\<close>, two \<^verbatim>\<open>addToCart\<close> calls
  for that pair with quantities \<open>q1\<close> and \<open>q2\<close>, an omitted quantity counting as 1,
  both go through and leave exactly one row for the pair: the row the first call
  inserted, with quantity \<open>q1 + q2\<close>. This needs \<open>q2\<close> to be other than 0, \<open>q1\<close>
  other than \<^verbatim>\<open>null\<close>, and the id, \<open>q1\<close> and the sum to fit the integer columns.
\<close>

theorem addToCart_twice_one_row:
  assumes no_row: "\<not> list_ex (\<lambda>c. c_userId c = u \<and> c_productId c = p) (cartItems s)"
    and fresh: "\<not> list_ex (\<lambda>c. c_id c = cartItems_id_seq s) (cartItems s)"
    and p: "int4 p"
    and q1: "q1 \<noteq> Null" "field_int4 q1"
    and q2: "q2 \<noteq> Given 0"
    and sum: "int4 (requested q1 + requested q2)"
  shows "\<exists>r1 r2 s1 s2.
           addToCart t1 \<lparr> ic_userId = u, ic_productId = Some p, ic_quantity = q1 \<rparr> s
             = (Inr (Some r1), s1)
         \<and> addToCart t2 \<lparr> ic_userId = u, ic_productId = Some p, ic_quantity = q2 \<rparr> s1
             = (Inr (Some r2), s2)
         \<and> filter (\<lambda>c. c_userId c = u \<and> c_productId c = p) (cartItems s2) = [r2]
         \<and> c_quantity r2 = Some (requested q1 + requested q2)
         \<and> c_id r2 = c_id r1
         \<and> cartItems s2 = cartItems s @ [r2]"
proof -
  let ?n = "cartItems_id_seq s"
  let ?r1 = "\<lparr> c_id = ?n, c_userId = u, c_productId = p,
               c_quantity = assign (Some 1) q1, c_createdAt = Some t1 \<rparr>"
  let ?s1 = "s\<lparr> cartItems_id_seq := ?n + 1, cartItems := cartItems s @ [?r1] \<rparr>"
  let ?q = "stored_or (assign (Some 1) q1) 0 + field_or q2 1"
  let ?r2 = "\<lparr> c_id = ?n, c_userId = u, c_productId = p,
               c_quantity = Some ?q, c_createdAt = Some t1 \<rparr>"
  let ?s2 = "?s1\<lparr> cartItems := cartItems s @ [?r2] \<rparr>"
  have qq: "?q = requested q1 + requested q2"
    using q1(1) q2 by (simp add: stored_requested field_requested)
  have first: "addToCart t1 \<lparr> ic_userId = u, ic_productId = Some p, ic_quantity = q1 \<rparr> s
                 = (Inr (Some ?r1), ?s1)"
    using addToCart_first[OF no_row fresh p q1(2)] .
  have "cartItems ?s1 = cartItems s @ [?r1]" by simp
  from addToCart_second[OF no_row fresh _ this, of q2 t2] sum qq
  have second: "addToCart t2 \<lparr> ic_userId = u, ic_productId = Some p, ic_quantity = q2 \<rparr> ?s1
                  = (Inr (Some ?r2), ?s2)"
    by simp
  have one: "filter (\<lambda>c. c_userId c = u \<and> c_productId c = p) (cartItems ?s2) = [?r2]"
    using filter_append_new[of "\<lambda>c. c_userId c = u \<and> c_productId c = p" "cartItems s" ?r2]
      no_row
    by simp
  show ?thesis
    using first second one qq
    by (intro exI[of _ ?r1] exI[of _ ?r2] exI[of _ ?s1] exI[of _ ?s2]) simp
qed

theorem addToCart_twice_one_row_witness:
  "\<not> list_ex (\<lambda>c. c_userId c = ''alice'' \<and> c_productId c = 7) (cartItems empty_store)
   \<and> \<not> list_ex (\<lambda>c. c_id c = cartItems_id_seq empty_store) (cartItems empty_store)
   \<and> int4 7 \<and> field_int4 Omitted \<and> int4 (requested Omitted + requested (Given 3))
   \<and> addToCart 2 \<lparr> ic_userId = ''alice'', ic_productId = Some 7, ic_quantity = Given 3 \<rparr>
       (snd (addToCart 1
               \<lparr> ic_userId = ''alice'', ic_productId = Some 7, ic_quantity = Omitted \<rparr>
               empty_store))
     = (Inr (Some \<lparr> c_id = 1, c_userId = ''alice'', c_productId = 7, c_quantity = Some 4,
                    c_createdAt = Some 1 \<rparr>),
        empty_store
          \<lparr> cartItems_id_seq := 2,
            cartItems := [\<lparr> c_id = 1, c_userId = ''alice'', c_productId = 7,
                            c_quantity = Some 4, c_createdAt = Some 1 \<rparr>] \<rparr>)"
proof -
  have h1: "\<not> list_ex (\<lambda>c. c_userId c = ''alice'' \<and> c_productId c = 7)
               (cartItems empty_store)"
    by (simp add: empty_store_def)
  have h2: "\<not> list_ex (\<lambda>c. c_id c = cartItems_id_seq empty_store) (cartItems empty_store)"
    by (simp add: empty_store_def)
  have h3: "int4 7" by (simp add: int4_def)
  have h4: "(Omitted :: int field) \<noteq> Null" by simp
  have h5: "field_int4 Omitted" by (simp add: field_int4_def)
  have h6: "Given 3 \<noteq> Given (0::int)" by simp
  have h7: "int4 (requested Omitted + requested (Given 3))"
    by (simp add: requested_def int4_def)
  have ex: "\<exists>r1 r2 s1 s2.
           addToCart 1 \<lparr> ic_userId = ''alice'', ic_productId = Some 7, ic_quantity = Omitted \<rparr>
             empty_store = (Inr (Some r1), s1)
         \<and> addToCart 2 \<lparr> ic_userId = ''alice'', ic_productId = Some 7, ic_quantity = Given 3 \<rparr>
             s1 = (Inr (Some r2), s2)
         \<and> filter (\<lambda>c. c_userId c = ''alice'' \<and> c_productId c = 7) (cartItems s2) = [r2]
         \<and> c_quantity r2 = Some (requested Omitted + requested (Given 3))
         \<and> c_id r2 = c_id r1
         \<and> cartItems s2 = cartItems empty_store @ [r2]"
    using addToCart_twice_one_row[OF h1 h2 h3 h4 h5 h6 h7, of 1 2] .
  have "addToCart 2 \<lparr> ic_userId = ''alice'', ic_productId = Some 7, ic_quantity = Given 3 \<rparr>
       (snd (addToCart 1
               \<lparr> ic_userId = ''alice'', ic_productId = Some 7, ic_quantity = Omitted \<rparr>
               empty_store))
     = (Inr (Some \<lparr> c_id = 1, c_userId = ''alice'', c_productId = 7, c_quantity = Some 4,
                    c_createdAt = Some 1 \<rparr>),
        empty_store
          \<lparr> cartItems_id_seq := 2,
            cartItems := [\<lparr> c_id = 1, c_userId = ''alice'', c_productId = 7,
                            c_quantity = Some 4, c_createdAt = Some 1 \<rparr>] \<rparr>)"
    by (simp add: addToCart_def empty_store_def Let_def int4_def field_int4_def)
  with ex h1 h2 h3 h5 h7 show ?thesis by blast
qed

subsection \<open>Listing and detail\<close>

lemma getProducts_approved: "p \<in> set (getProducts c s) \<Longrightarrow> p_isApproved p = Some True"
  by (auto simp: getProducts_def set_orderBy_desc split: option.splits if_splits)

lemma getProducts_sorted:
  "sorted_wrt (\<lambda>a b. pg_ge (p_createdAt a) (p_createdAt b)) (getProducts c s)"
  by (simp add: getProducts_def sorted_orderBy_desc split: option.splits)

text \<open>
  C8, as stated, fails: for an id beyond the 32-bit range of the id column, which no
  row can have, \<^verbatim>\<open>getProduct\<close> does not return absent. The store refuses the query,
  the call throws, and \<^verbatim>\<open>GET /api/products/:id\<close> answers 500, not 404.
\<close>

theorem getProduct_out_of_range_throws:
  "getProduct 2147483648 catalogue_store = Inl NumericValueOutOfRange
   \<and> getProduct 2147483648 catalogue_store \<noteq> Inr None
   \<and> map p_id (products catalogue_store) = [1, 2, 3]
   \<and> get_api_products_id (Some 2147483648) catalogue_store
       = Status 500 ''Failed to fetch product''"
  by (simp add: getProduct_def get_api_products_id_def int4_def catalogue_store_def
        empty_store_def demo_product_def)

text \<open>
  C8, amended. \<^verbatim>\<open>getProducts()\<close> returns exactly the approved rows of the table,
  newest first (in the store's order, where \<^verbatim>\<open>NULL\<close> sorts above every time), and
  with a category argument still only approved rows. For an id within the 32-bit range
  of the id column, \<^verbatim>\<open>getProduct(id)\<close> returns, and is absent exactly when no row has
  the id; whatever it returns is a row of the table with that id, approved or not,
  and where ids are unique it is the row itself. For an id outside the range it
  throws.
\<close>

theorem getProducts_approved_getProduct_any:
  "mset (getProducts None s) = mset (filter (\<lambda>p. p_isApproved p = Some True) (products s))
   \<and> (\<forall>p \<in> set (getProducts c s). p_isApproved p = Some True)
   \<and> sorted_wrt (\<lambda>a b. pg_ge (p_createdAt a) (p_createdAt b)) (getProducts c s)
   \<and> (int4 i \<longrightarrow> (\<exists>r. getProduct i s = Inr r))
   \<and> (int4 i \<longrightarrow> (getProduct i s = Inr None \<longleftrightarrow> i \<notin> p_id ` set (products s)))
   \<and> (\<forall>p. getProduct i s = Inr (Some p) \<longrightarrow> p \<in> set (products s) \<and> p_id p = i)
   \<and> (\<forall>p \<in> set (products s). distinct (map p_id (products s)) \<and> int4 (p_id p) \<longrightarrow>
          getProduct (p_id p) s = Inr (Some p))
   \<and> (\<not> int4 i \<longrightarrow> getProduct i s = Inl NumericValueOutOfRange)"
proof -
  have 1: "mset (getProducts None s)
           = mset (filter (\<lambda>p. p_isApproved p = Some True) (products s))"
    by (simp add: getProducts_def mset_orderBy_desc)
  have 3: "int4 i \<longrightarrow> (\<exists>r. getProduct i s = Inr r)"
    by (simp add: getProduct_def)
  have 4: "int4 i \<longrightarrow> (getProduct i s = Inr None \<longleftrightarrow> i \<notin> p_id ` set (products s))"
    by (auto simp: getProduct_def find_None_iff)
  have 5: "\<forall>p. getProduct i s = Inr (Some p) \<longrightarrow> p \<in> set (products s) \<and> p_id p = i"
    by (auto simp: getProduct_def find_Some_iff split: if_splits)
  have 6: "\<forall>p \<in> set (products s). distinct (map p_id (products s)) \<and> int4 (p_id p) \<longrightarrow>
          getProduct (p_id p) s = Inr (Some p)"
    by (simp add: getProduct_def find_distinct_key)
  have 7: "\<not> int4 i \<longrightarrow> getProduct i s = Inl NumericValueOutOfRange"
    by (simp add: getProduct_def)
  from 1 3 4 5 6 7 getProducts_approved getProducts_sorted show ?thesis by blast
qed

theorem getProducts_approved_getProduct_any_witness:
  "getProducts None catalogue_store =
     [demo_product 3 ''eve'' (Some True) (Some 0) (Some 70),
      demo_product 2 ''bob'' (Some True) (Some 0) (Some 30)]
   \<and> int4 1 \<and> int4 9
   \<and> distinct (map p_id (products catalogue_store))
   \<and> getProduct 1 catalogue_store
       = Inr (Some (demo_product 1 ''bob'' (Some False) (Some 0) (Some 50)))
   \<and> getProduct 9 catalogue_store = Inr None
   \<and> get_api_products_id (Some 1) catalogue_store
       = Json (demo_product 1 ''bob'' (Some False) (Some 0) (Some 50))
   \<and> get_api_products_id (Some 9) catalogue_store = Status 404 ''Product not found''"
proof -
  have l: "getProducts None catalogue_store =
     [demo_product 3 ''eve'' (Some True) (Some 0) (Some 70),
      demo_product 2 ''bob'' (Some True) (Some 0) (Some 30)]"
    by (simp add: getProducts_def orderBy_desc_def catalogue_store_def empty_store_def
          demo_product_def)
  have r: "int4 1" "int4 9" by (simp_all add: int4_def)
  have d: "distinct (map p_id (products catalogue_store))"
    by (simp add: catalogue_store_def empty_store_def demo_product_def)
  have m: "demo_product 1 ''bob'' (Some False) (Some 0) (Some 50)
             \<in> set (products catalogue_store)"
    by (simp add: catalogue_store_def empty_store_def)
  have i1: "p_id (demo_product 1 ''bob'' (Some False) (Some 0) (Some 50)) = 1"
    by (simp add: demo_product_def)
  have n: "9 \<notin> p_id ` set (products catalogue_store)"
    by (simp add: catalogue_store_def empty_store_def demo_product_def)
  have g1: "getProduct 1 catalogue_store
              = Inr (Some (demo_product 1 ''bob'' (Some False) (Some 0) (Some 50)))"
    using getProducts_approved_getProduct_any[of catalogue_store None 1] m d r(1) i1
    by metis
  have g9: "getProduct 9 catalogue_store = Inr None"
    using getProducts_approved_getProduct_any[of catalogue_store None 9] n r(2)
    by blast
  have h1: "get_api_products_id (Some 1) catalogue_store
              = Json (demo_product 1 ''bob'' (Some False) (Some 0) (Some 50))"
    by (simp add: get_api_products_id_def g1)
  have h9: "get_api_products_id (Some 9) catalogue_store = Status 404 ''Product not found''"
    by (simp add: get_api_products_id_def g9)
  from l r d g1 g9 h1 h9 show ?thesis by blast
qed

subsection \<open>Users\<close>

lemma find_map_update:
  assumes "\<And>r. k r = i \<Longrightarrow> k (f r) = i"
  shows "find (\<lambda>r. k r = j) (map (\<lambda>r. if k r = i then f r else r) xs)
         = (if j = i then map_option f (find (\<lambda>r. k r = i) xs) else find (\<lambda>r. k r = j) xs)"
  using assms by (induction xs) auto

lemma u_id_merge_user: "u_id (merge_user now d r) = uu_id d"
  by (simp add: merge_user_def)

lemma find_snoc:
  "find P (xs @ [x]) = (case find P xs of Some y \<Rightarrow> Some y | None \<Rightarrow> if P x then Some x else None)"
  by (induction xs) auto

lemma getUser_append:
  "getUser j (s\<lparr>users := users s @ [r]\<rparr>)
   = (case getUser j s of Some x \<Rightarrow> Some x | None \<Rightarrow> if u_id r = j then Some r else None)"
  by (simp add: getUser_def find_snoc)

lemma upsertUser_update:
  assumes "getUser (uu_id d) s = Some old" and "upsertUser now d s = (Inr new, s')"
  shows "new = merge_user now d old"
    and "getUser j s' = (if j = uu_id d then Some new else getUser j s)"
proof -
  from assms have ne: "\<not> email_taken (uu_id d) (uu_email d) (users s)"
    by (auto simp: upsertUser_def split: if_splits)
  with assms show new: "new = merge_user now d old"
    by (auto simp: upsertUser_def getUser_def)
  from assms ne have s': "s' = s\<lparr>users :=
                 map (\<lambda>r. if u_id r = uu_id d then merge_user now d r else r) (users s)\<rparr>"
    by (auto simp: upsertUser_def getUser_def)
  show "getUser j s' = (if j = uu_id d then Some new else getUser j s)"
    using assms(1) new
    by (simp add: s' getUser_def
          find_map_update[of u_id "uu_id d" "merge_user now d", OF u_id_merge_user])
qed

lemma upsertUser_insert:
  assumes "getUser (uu_id d) s = None" and "upsertUser now d s = (Inr new, s')"
  shows "new = new_user now d"
    and "getUser j s' = (if j = uu_id d then Some new else getUser j s)"
proof -
  from assms have ne: "\<not> email_taken (uu_id d) (uu_email d) (users s)"
    by (auto simp: upsertUser_def split: if_splits)
  with assms show new: "new = new_user now d"
    by (auto simp: upsertUser_def getUser_def Let_def)
  from assms ne have s': "s' = s\<lparr>users := users s @ [new_user now d]\<rparr>"
    by (auto simp: upsertUser_def getUser_def Let_def)
  have "u_id (new_user now d) = uu_id d" by (simp add: new_user_def)
  with assms(1) new show "getUser j s' = (if j = uu_id d then Some new else getUser j s)"
    by (auto simp: s' getUser_append split: option.splits)
qed

lemma upsertUser_no_email_succeeds:
  "uu_email d = Omitted \<Longrightarrow> \<exists>new s'. upsertUser now d s = (Inr new, s')"
  by (simp add: upsertUser_def email_taken_def Let_def split: option.splits)

lemma upsertUser_fail_unchanged: "upsertUser now d s = (Inl e, s') \<Longrightarrow> s' = s"
  by (auto simp: upsertUser_def Let_def split: if_splits option.splits)

text \<open>
  C4. When \<^verbatim>\<open>upsertUser\<close> meets an existing row and goes through, the row it returns
  and stores has, column by column, the payload's value where the payload has the
  property (\<^verbatim>\<open>NULL\<close> for \<^verbatim>\<open>null\<close>) and the old value where it has not; the update
  time is the clock's, and no other user's row changes. The payload of the approval
  path, which has only \<^verbatim>\<open>id\<close>, \<^verbatim>\<open>role\<close> and \<^verbatim>\<open>isApproved\<close>, always goes through on
  an existing user and changes nothing but role, approval and update time.
\<close>

theorem upsertUser_partial_merge:
  "(\<forall>old new s'. getUser (uu_id d) s = Some old \<and> upsertUser now d s = (Inr new, s') \<longrightarrow>
      getUser (uu_id d) s' = Some new
      \<and> (\<forall>j. j \<noteq> uu_id d \<longrightarrow> getUser j s' = getUser j s)
      \<and> u_id new = u_id old
      \<and> u_email new =
          (case uu_email d of Omitted \<Rightarrow> u_email old | Null \<Rightarrow> None | Given v \<Rightarrow> Some v)
      \<and> u_firstName new =
          (case uu_firstName d of Omitted \<Rightarrow> u_firstName old | Null \<Rightarrow> None | Given v \<Rightarrow> Some v)
      \<and> u_lastName new =
          (case uu_lastName d of Omitted \<Rightarrow> u_lastName old | Null \<Rightarrow> None | Given v \<Rightarrow> Some v)
      \<and> u_profileImageUrl new =
          (case uu_profileImageUrl d of
             Omitted \<Rightarrow> u_profileImageUrl old | Null \<Rightarrow> None | Given v \<Rightarrow> Some v)
      \<and> u_role new = (case uu_role d of None \<Rightarrow> u_role old | Some v \<Rightarrow> v)
      \<and> u_isApproved new =
          (case uu_isApproved d of Omitted \<Rightarrow> u_isApproved old | Null \<Rightarrow> None | Given v \<Rightarrow> Some v)
      \<and> u_createdAt new =
          (case uu_createdAt d of Omitted \<Rightarrow> u_createdAt old | Null \<Rightarrow> None | Given v \<Rightarrow> Some v)
      \<and> u_updatedAt new = Some now)
   \<and> (\<forall>old. getUser i s = Some old \<longrightarrow>
        (\<exists>new s'.
           upsertUser now
             \<lparr> uu_id = i, uu_email = Omitted, uu_firstName = Omitted, uu_lastName = Omitted,
               uu_profileImageUrl = Omitted, uu_role = Some ''seller'',
               uu_isApproved = Given True, uu_createdAt = Omitted, uu_updatedAt = Omitted \<rparr> s
             = (Inr new, s')
           \<and> getUser i s' = Some new
           \<and> new = old\<lparr> u_role := ''seller'', u_isApproved := Some True,
                         u_updatedAt := Some now \<rparr>))"
proof (intro conjI allI impI)
  fix old
  assume old: "getUser i s = Some old"
  let ?d = "\<lparr> uu_id = i, uu_email = Omitted, uu_firstName = Omitted, uu_lastName = Omitted,
               uu_profileImageUrl = Omitted, uu_role = Some ''seller'',
               uu_isApproved = Given True, uu_createdAt = Omitted, uu_updatedAt = Omitted \<rparr>"
  obtain new s' where up: "upsertUser now ?d s = (Inr new, s')"
    using upsertUser_no_email_succeeds[of ?d now s] by auto
  have id: "u_id old = i"
    using old by (auto simp: getUser_def find_Some_iff)
  from old have old': "getUser (uu_id ?d) s = Some old" by simp
  have "new = merge_user now ?d old"
    using upsertUser_update(1)[OF old' up] .
  then have new: "new = old\<lparr> u_role := ''seller'', u_isApproved := Some True,
                         u_updatedAt := Some now \<rparr>"
    using id by (simp add: merge_user_def)
  have "getUser i s' = Some new"
    using upsertUser_update(2)[OF old' up, of i] by simp
  with up new show "\<exists>new s'. upsertUser now ?d s = (Inr new, s') \<and> getUser i s' = Some new
           \<and> new = old\<lparr> u_role := ''seller'', u_isApproved := Some True,
                         u_updatedAt := Some now \<rparr>"
    by blast
next
  fix old new s'
  assume a: "getUser (uu_id d) s = Some old \<and> upsertUser now d s = (Inr new, s')"
  then have new: "new = merge_user now d old" and get: "\<And>j. getUser j s' = (if j = uu_id d then Some new else getUser j s)"
    using upsertUser_update by blast+
  have id: "u_id old = uu_id d"
    using a by (auto simp: getUser_def find_Some_iff)
  show "getUser (uu_id d) s' = Some new" using get by simp
  show "u_id new = u_id old" using new id by (simp add: merge_user_def)
  show "u_email new =
          (case uu_email d of Omitted \<Rightarrow> u_email old | Null \<Rightarrow> None | Given v \<Rightarrow> Some v)"
    using new by (cases "uu_email d") (simp_all add: merge_user_def)
  show "u_firstName new =
          (case uu_firstName d of Omitted \<Rightarrow> u_firstName old | Null \<Rightarrow> None | Given v \<Rightarrow> Some v)"
    using new by (cases "uu_firstName d") (simp_all add: merge_user_def)
  show "u_lastName new =
          (case uu_lastName d of Omitted \<Rightarrow> u_lastName old | Null \<Rightarrow> None | Given v \<Rightarrow> Some v)"
    using new by (cases "uu_lastName d") (simp_all add: merge_user_def)
  show "u_profileImageUrl new =
          (case uu_profileImageUrl d of
             Omitted \<Rightarrow> u_profileImageUrl old | Null \<Rightarrow> None | Given v \<Rightarrow> Some v)"
    using new by (cases "uu_profileImageUrl d") (simp_all add: merge_user_def)
  show "u_role new = (case uu_role d of None \<Rightarrow> u_role old | Some v \<Rightarrow> v)"
    using new by (simp add: merge_user_def)
  show "u_isApproved new =
          (case uu_isApproved d of Omitted \<Rightarrow> u_isApproved old | Null \<Rightarrow> None | Given v \<Rightarrow> Some v)"
    using new by (cases "uu_isApproved d") (simp_all add: merge_user_def)
  show "u_createdAt new =
          (case uu_createdAt d of Omitted \<Rightarrow> u_createdAt old | Null \<Rightarrow> None | Given v \<Rightarrow> Some v)"
    using new by (cases "uu_createdAt d") (simp_all add: merge_user_def)
  show "u_updatedAt new = Some now" using new by (simp add: merge_user_def)
  fix j assume "j \<noteq> uu_id d"
  then show "getUser j s' = getUser j s" using get by simp
qed

theorem upsertUser_partial_merge_witness:
  "upsertUser 9
     \<lparr> uu_id = ''alice'', uu_email = Omitted, uu_firstName = Given ''Bea'', uu_lastName = Null,
       uu_profileImageUrl = Omitted, uu_role = None, uu_isApproved = Omitted,
       uu_createdAt = Omitted, uu_updatedAt = Omitted \<rparr> staff_store
   = (Inr ((demo_user ''alice'' ''buyer'')
             \<lparr> u_firstName := Some ''Bea'', u_lastName := None, u_updatedAt := Some 9 \<rparr>),
      staff_store
        \<lparr> users := [demo_user ''root'' ''admin'',
                    (demo_user ''alice'' ''buyer'')
                      \<lparr> u_firstName := Some ''Bea'', u_lastName := None,
                        u_updatedAt := Some 9 \<rparr>,
                    demo_user ''bob'' ''seller''] \<rparr>)"
  using upsertUser_partial_merge
          [of "\<lparr> uu_id = ''alice'', uu_email = Omitted, uu_firstName = Given ''Bea'',
                 uu_lastName = Null, uu_profileImageUrl = Omitted, uu_role = None,
                 uu_isApproved = Omitted, uu_createdAt = Omitted, uu_updatedAt = Omitted \<rparr>"
              staff_store 9 "''alice''"]
  by (simp add: upsertUser_def email_taken_def merge_user_def staff_store_def empty_store_def
        demo_user_def)

subsection \<open>Seller applications\<close>

lemma updateSellerApplicationStatus_users:
  "users (snd (updateSellerApplicationStatus i status s)) = users s"
  by (cases status) (simp_all add: updateSellerApplicationStatus_def Let_def)

lemma updateSellerApplicationStatus_found:
  assumes "find (\<lambda>a. a_id a = i) (sellerApplications s) = Some app" and "status \<noteq> Omitted"
  shows "\<exists>s1. updateSellerApplicationStatus i status s
               = (Inr (Some (app\<lparr>a_status := assign None status\<rparr>)), s1)
             \<and> users s1 = users s"
proof -
  let ?f = "\<lambda>a. a\<lparr>a_status := assign None status\<rparr>"
  have "find (\<lambda>a. a_id a = i) (map (\<lambda>a. if a_id a = i then ?f a else a) (sellerApplications s))
        = Some (?f app)"
    using assms(1) by (simp add: find_map_update[of a_id i ?f])
  then have "updateSellerApplicationStatus i status s
        = (Inr (Some (?f app)),
           s\<lparr>sellerApplications :=
               map (\<lambda>a. if a_id a = i then ?f a else a) (sellerApplications s)\<rparr>)"
    using assms(2) unfolding updateSellerApplicationStatus_def Let_def
    by (cases status) simp_all
  then show ?thesis by simp
qed

lemma patch_not_approved_users:
  "status \<noteq> Given ''approved'' \<Longrightarrow>
   users (snd (patch_api_admin_applications now c i status s)) = users s"
proof -
  assume ne: "status \<noteq> Given ''approved''"
  have "\<And>n. users (snd (updateSellerApplicationStatus n status s)) = users s"
    by (rule updateSellerApplicationStatus_users)
  then show ?thesis using ne
    by (auto simp: patch_api_admin_applications_def split: option.splits sum.splits prod.splits)
       (metis snd_conv)+
qed

text \<open>
  C3. An administrator sets the status of an existing application of user \<open>U\<close>. With
  the status \<^verbatim>\<open>'approved'\<close>, afterwards the row of \<open>U\<close> has role \<^verbatim>\<open>seller\<close> and is
  approved (the old row with role, approval and update time rewritten, if there was
  one), and every other user reads as before. With any other status, from any caller
  and for any id, the users table is what it was.
\<close>

theorem approval_alone_promotes_applicant:
  assumes admin: "getUser c s = Some adm" "u_role adm = ''admin''"
    and app: "find (\<lambda>a. a_id a = i) (sellerApplications s) = Some app"
  shows "(status = Given ''approved'' \<longrightarrow>
            (\<exists>r. getUser (a_userId app)
                    (snd (patch_api_admin_applications now c (Some i) status s)) = Some r
                 \<and> u_role r = ''seller'' \<and> u_isApproved r = Some True
                 \<and> (\<forall>old. getUser (a_userId app) s = Some old \<longrightarrow>
                       r = old\<lparr> u_role := ''seller'', u_isApproved := Some True,
                                u_updatedAt := Some now \<rparr>))
            \<and> (\<forall>j. j \<noteq> a_userId app \<longrightarrow>
                  getUser j (snd (patch_api_admin_applications now c (Some i) status s))
                    = getUser j s))
       \<and> (\<forall>c' i'. status \<noteq> Given ''approved'' \<longrightarrow>
              users (snd (patch_api_admin_applications now c' i' status s)) = users s)"
proof (intro conjI allI impI)
  fix c' i'
  assume "status \<noteq> Given ''approved''"
  then show "users (snd (patch_api_admin_applications now c' i' status s)) = users s"
    by (rule patch_not_approved_users)
next
  assume st: "status = Given ''approved''"
  let ?U = "a_userId app"
  let ?d = "\<lparr> uu_id = ?U, uu_email = Omitted, uu_firstName = Omitted, uu_lastName = Omitted,
               uu_profileImageUrl = Omitted, uu_role = Some ''seller'',
               uu_isApproved = Given True, uu_createdAt = Omitted, uu_updatedAt = Omitted \<rparr>"
  obtain s1 where upd: "updateSellerApplicationStatus i status s
                          = (Inr (Some (app\<lparr>a_status := assign None status\<rparr>)), s1)"
    and us1: "users s1 = users s"
    using updateSellerApplicationStatus_found[OF app, of status] st by auto
  obtain new s2 where up: "upsertUser now ?d s1 = (Inr new, s2)"
    using upsertUser_no_email_succeeds[of ?d now s1] by auto
  have res: "snd (patch_api_admin_applications now c (Some i) status s) = s2"
    using admin upd up st by (simp add: patch_api_admin_applications_def)
  have get1: "\<And>j. getUser j s1 = getUser j s"
    using us1 by (simp add: getUser_def)
  have get2: "\<And>j. getUser j s2 = (if j = ?U then Some new else getUser j s)"
  proof -
    fix j
    show "getUser j s2 = (if j = ?U then Some new else getUser j s)"
    proof (cases "getUser ?U s1")
      case None
      then show ?thesis using upsertUser_insert(2)[of ?d s1 now new s2 j] up get1 by simp
    next
      case (Some old)
      then show ?thesis using upsertUser_update(2)[of ?d s1 old now new s2 j] up get1 by simp
    qed
  qed
  have role: "u_role new = ''seller'' \<and> u_isApproved new = Some True"
  proof (cases "getUser ?U s1")
    case None
    then have "new = new_user now ?d" using upsertUser_insert(1)[of ?d s1 now new s2] up by simp
    then show ?thesis by (simp add: new_user_def)
  next
    case (Some old)
    then have "new = merge_user now ?d old"
      using upsertUser_update(1)[of ?d s1 old now new s2] up by simp
    then show ?thesis by (simp add: merge_user_def)
  qed
  have old: "\<forall>old. getUser ?U s = Some old \<longrightarrow>
               new = old\<lparr> u_role := ''seller'', u_isApproved := Some True,
                            u_updatedAt := Some now \<rparr>"
  proof (intro allI impI)
    fix old assume o: "getUser ?U s = Some old"
    then have id: "u_id old = ?U" by (auto simp: getUser_def find_Some_iff)
    from o have "getUser (uu_id ?d) s1 = Some old" using get1 by simp
    then have "new = merge_user now ?d old"
      using upsertUser_update(1)[of ?d s1 old now new s2] up by simp
    then show "new = old\<lparr> u_role := ''seller'', u_isApproved := Some True,
                            u_updatedAt := Some now \<rparr>"
      using id by (simp add: merge_user_def)
  qed
  show "\<exists>r. getUser ?U (snd (patch_api_admin_applications now c (Some i) status s)) = Some r
                 \<and> u_role r = ''seller'' \<and> u_isApproved r = Some True
                 \<and> (\<forall>old. getUser ?U s = Some old \<longrightarrow>
                       r = old\<lparr> u_role := ''seller'', u_isApproved := Some True,
                                u_updatedAt := Some now \<rparr>)"
    using res get2 role old by auto
  fix j assume "j \<noteq> ?U"
  then show "getUser j (snd (patch_api_admin_applications now c (Some i) status s)) = getUser j s"
    using res get2 by simp
qed

theorem approval_alone_promotes_applicant_witness:
  "getUser ''root'' staff_store = Some (demo_user ''root'' ''admin'')
   \<and> u_role (demo_user ''root'' ''admin'') = ''admin''
   \<and> find (\<lambda>a. a_id a = 1) (sellerApplications staff_store)
       = Some \<lparr> a_id = 1, a_userId = ''alice'', a_email = ''alice@example.org'',
                a_whatsapp = ''555'', a_paymentInfo = ''iban'', a_status = Some ''pending'',
                a_createdAt = Some 5 \<rparr>
   \<and> getUser ''alice''
       (snd (patch_api_admin_applications 9 ''root'' (Some 1) (Given ''approved'') staff_store))
     = Some ((demo_user ''alice'' ''buyer'')
               \<lparr> u_role := ''seller'', u_isApproved := Some True, u_updatedAt := Some 9 \<rparr>)
   \<and> users (snd (patch_api_admin_applications 9 ''root'' (Some 1) (Given ''rejected'')
                   staff_store))
     = users staff_store"
proof -
  let ?app = "\<lparr> a_id = 1, a_userId = ''alice'', a_email = ''alice@example.org'',
                a_whatsapp = ''555'', a_paymentInfo = ''iban'', a_status = Some ''pending'',
                a_createdAt = Some 5 \<rparr>"
  have h1: "getUser ''root'' staff_store = Some (demo_user ''root'' ''admin'')"
    by (simp add: getUser_def staff_store_def empty_store_def demo_user_def)
  have h2: "u_role (demo_user ''root'' ''admin'') = ''admin''"
    by (simp add: demo_user_def)
  have h3: "find (\<lambda>a. a_id a = 1) (sellerApplications staff_store) = Some ?app"
    by (simp add: staff_store_def empty_store_def)
  have old: "getUser ''alice'' staff_store = Some (demo_user ''alice'' ''buyer'')"
    by (simp add: getUser_def staff_store_def empty_store_def demo_user_def)
  have "getUser ''alice''
       (snd (patch_api_admin_applications 9 ''root'' (Some 1) (Given ''approved'') staff_store))
     = Some ((demo_user ''alice'' ''buyer'')
               \<lparr> u_role := ''seller'', u_isApproved := Some True, u_updatedAt := Some 9 \<rparr>)"
    using approval_alone_promotes_applicant[OF h1 h2 h3, of "Given ''approved''" 9] old
    by auto
  moreover have "users (snd (patch_api_admin_applications 9 ''root'' (Some 1)
                               (Given ''rejected'') staff_store))
     = users staff_store"
    using approval_alone_promotes_applicant[OF h1 h2 h3, of "Given ''rejected''" 9]
    by simp
  ultimately show ?thesis using h1 h2 h3 by blast
qed

subsection \<open>Creating products\<close>

text \<open>
  C5. \<^verbatim>\<open>POST /api/products\<close> from an identity without a user row, or with a role
  other than \<^verbatim>\<open>seller\<close> and \<^verbatim>\<open>admin\<close>, is answered 403 and leaves the store as it
  was, whatever the body.
\<close>

theorem post_products_forbidden:
  assumes "getUser u s = None
           \<or> (\<exists>usr. getUser u s = Some usr \<and> u_role usr \<noteq> ''seller'' \<and> u_role usr \<noteq> ''admin'')"
  shows "post_api_products numeric_in now u body s
         = (Status 403 ''Only approved sellers can create products'', s)"
  using assms by (auto simp: post_api_products_def)

theorem post_products_forbidden_witness:
  "getUser ''mallory'' staff_store = None
   \<and> post_api_products Some 9 ''mallory'' lamp_body staff_store
     = (Status 403 ''Only approved sellers can create products'', staff_store)
   \<and> getUser ''alice'' staff_store = Some (demo_user ''alice'' ''buyer'')
   \<and> post_api_products Some 9 ''alice'' lamp_body staff_store
     = (Status 403 ''Only approved sellers can create products'', staff_store)"
proof -
  have h1: "getUser ''mallory'' staff_store = None"
    by (simp add: getUser_def staff_store_def empty_store_def demo_user_def)
  have h2: "getUser ''alice'' staff_store = Some (demo_user ''alice'' ''buyer'')"
    by (simp add: getUser_def staff_store_def empty_store_def demo_user_def)
  have r: "u_role (demo_user ''alice'' ''buyer'') \<noteq> ''seller''
           \<and> u_role (demo_user ''alice'' ''buyer'') \<noteq> ''admin''"
    by (simp add: demo_user_def)
  have "post_api_products Some 9 ''mallory'' lamp_body staff_store
     = (Status 403 ''Only approved sellers can create products'', staff_store)"
    using h1 by (intro post_products_forbidden) simp
  moreover have "post_api_products Some 9 ''alice'' lamp_body staff_store
     = (Status 403 ''Only approved sellers can create products'', staff_store)"
    using h2 r by (intro post_products_forbidden) simp
  ultimately show ?thesis using h1 h2 by blast
qed

lemma createProduct_success:
  "createProduct numeric_in now d s = (Inr p, s') \<Longrightarrow>
   p_sellerId p = ip_sellerId d \<and> p_isApproved p = assign (Some False) (ip_isApproved d)
   \<and> p_id p = products_id_seq s \<and> products s' = products s @ [p]"
  by (auto simp: createProduct_def Let_def split: option.splits if_splits)

lemma createProduct_succeeds:
  "numeric_in (ip_price d) = Some pr \<Longrightarrow> int4 (ip_categoryId d) \<Longrightarrow> field_int4 (ip_favoriteCount d)
   \<Longrightarrow> \<not> list_ex (\<lambda>r. p_id r = products_id_seq s) (products s)
   \<Longrightarrow> \<exists>p s'. createProduct numeric_in now d s = (Inr p, s')"
  by (simp add: createProduct_def Let_def)

text \<open>
  C9. Whenever \<^verbatim>\<open>POST /api/products\<close> answers with a created product, the caller is a
  seller or an administrator, the row is the one appended to the table, its seller is
  the session identity and it is approved exactly when the caller's role is
  \<^verbatim>\<open>admin\<close>, whatever the body says. A seller or administrator whose body passes
  the schema, with a price the store accepts and integers in range, does get one.
\<close>

theorem post_products_seller_and_approval:
  "(\<forall>usr p s'. getUser u s = Some usr
        \<and> post_api_products numeric_in now u body s = (Json p, s') \<longrightarrow>
      p_sellerId p = u
      \<and> p_isApproved p = Some (u_role usr = ''admin'')
      \<and> (u_role usr = ''seller'' \<or> u_role usr = ''admin'')
      \<and> products s' = products s @ [p])
   \<and> (\<forall>usr d pr. getUser u s = Some usr
        \<and> (u_role usr = ''seller'' \<or> u_role usr = ''admin'')
        \<and> insertProductSchema_parse body = Some d
        \<and> numeric_in (ip_price d) = Some pr
        \<and> int4 (ip_categoryId d) \<and> field_int4 (ip_favoriteCount d)
        \<and> \<not> list_ex (\<lambda>r. p_id r = products_id_seq s) (products s) \<longrightarrow>
      (\<exists>p s'. post_api_products numeric_in now u body s = (Json p, s')))"
proof (intro conjI allI impI)
  fix usr p s'
  assume a: "getUser u s = Some usr \<and> post_api_products numeric_in now u body s = (Json p, s')"
  then have role: "u_role usr = ''seller'' \<or> u_role usr = ''admin''"
    by (auto simp: post_api_products_def split: if_splits)
  from a role obtain d where d: "insertProductSchema_parse body = Some d"
    and cr: "createProduct numeric_in now
               (d\<lparr> ip_sellerId := u, ip_isApproved := Given (u_role usr = ''admin'') \<rparr>) s
             = (Inr p, s')"
    by (auto simp: post_api_products_def split: if_splits option.splits sum.splits prod.splits)
  from createProduct_success[OF cr]
  show "p_sellerId p = u" and "p_isApproved p = Some (u_role usr = ''admin'')"
    and "products s' = products s @ [p]"
    by simp_all
  from role show "u_role usr = ''seller'' \<or> u_role usr = ''admin''" .
next
  fix usr d pr
  assume a: "getUser u s = Some usr
        \<and> (u_role usr = ''seller'' \<or> u_role usr = ''admin'')
        \<and> insertProductSchema_parse body = Some d
        \<and> numeric_in (ip_price d) = Some pr
        \<and> int4 (ip_categoryId d) \<and> field_int4 (ip_favoriteCount d)
        \<and> \<not> list_ex (\<lambda>r. p_id r = products_id_seq s) (products s)"
  let ?d = "d\<lparr> ip_sellerId := u, ip_isApproved := Given (u_role usr = ''admin'') \<rparr>"
  from a obtain p s' where "createProduct numeric_in now ?d s = (Inr p, s')"
    using createProduct_succeeds[of numeric_in ?d pr s now] by auto
  with a show "\<exists>p s'. post_api_products numeric_in now u body s = (Json p, s')"
    by (auto simp: post_api_products_def)
qed

theorem post_products_seller_and_approval_witness:
  "fst (post_api_products Some 9 ''bob'' lamp_body staff_store)
     = Json \<lparr> p_id = 1, p_name = ''lamp'', p_description = ''a lamp'', p_price = ''9.99'',
              p_imageUrl = ''lamp.png'', p_sellerId = ''bob'', p_categoryId = 3,
              p_isApproved = Some False, p_favoriteCount = Some 0,
              p_createdAt = Some 9, p_updatedAt = Some 9 \<rparr>
   \<and> fst (post_api_products Some 9 ''root'' lamp_body staff_store)
     = Json \<lparr> p_id = 1, p_name = ''lamp'', p_description = ''a lamp'', p_price = ''9.99'',
              p_imageUrl = ''lamp.png'', p_sellerId = ''root'', p_categoryId = 3,
              p_isApproved = Some True, p_favoriteCount = Some 0,
              p_createdAt = Some 9, p_updatedAt = Some 9 \<rparr>"
  using post_products_seller_and_approval[of "''bob''" staff_store Some 9 lamp_body]
  by (simp add: post_api_products_def getUser_def staff_store_def empty_store_def demo_user_def
        lamp_body_def insertProductSchema_parse_def createProduct_def Let_def int4_def
        field_int4_def)

subsection \<open>Removing a cart row\<close>

text \<open>
  The sibling route \<^verbatim>\<open>DELETE /api/favorites/:productId\<close> deletes under the session
  identity: no favorite of another user goes.
\<close>

lemma delete_api_favorites_own_rows_only:
  "f \<in> set (favorites s) \<Longrightarrow> f_userId f \<noteq> u \<Longrightarrow>
   f \<in> set (favorites (snd (delete_api_favorites u p s)))"
  by (cases p) (simp_all add: delete_api_favorites_def removeFromFavorites_def Let_def)

lemma delete_api_cart_any_caller: "delete_api_cart u i s = delete_api_cart u' i s"
  by (simp add: delete_api_cart_def)

text \<open>
  C6. \<^verbatim>\<open>DELETE /api/cart/:id\<close> deletes by row id alone: \<open>alice\<close> naming the id of
  the row \<open>bob\<close> owns removes that row.
\<close>

theorem delete_cart_ignores_owner:
  "delete_api_cart ''alice'' (Some 1) bob_cart_store
     = (Json ''Removed from cart'', bob_cart_store\<lparr>cartItems := []\<rparr>)
   \<and> map c_userId (cartItems bob_cart_store) = [''bob'']"
  by (simp add: delete_api_cart_def removeFromCart_def int4_def bob_cart_store_def
        empty_store_def)

subsection \<open>Adding a favorite twice\<close>

lemma list_ex_snoc: "list_ex P (xs @ [x]) = (list_ex P xs \<or> P x)"
  by (induction xs) auto

lemma addToFavorites_duplicate:
  assumes "list_ex (\<lambda>f. f_userId f = u \<and> f_productId f = p) (favorites s)" and "int4 p"
  shows "addToFavorites now \<lparr> if_userId = u, if_productId = Some p \<rparr> s
         = (Inl UniqueViolation, s\<lparr>favorites_id_seq := favorites_id_seq s + 1\<rparr>)"
proof -
  have "list_ex (\<lambda>f. f_id f = favorites_id_seq s \<or> (f_userId f = u \<and> f_productId f = p))
          (favorites s)"
    using assms(1) by (auto simp: list_ex_iff)
  with assms(2) show ?thesis by (simp add: addToFavorites_def Let_def)
qed

lemma addToFavorites_success_row:
  assumes "addToFavorites now \<lparr> if_userId = u, if_productId = Some p \<rparr> s = (Inr f, s1)"
  shows "list_ex (\<lambda>f. f_userId f = u \<and> f_productId f = p) (favorites s1) \<and> int4 p"
  using assms
  by (auto simp: addToFavorites_def Let_def list_ex_snoc split: if_splits)

text \<open>
  C7, as stated, fails: the store refuses the second \<^verbatim>\<open>addToFavorites\<close> of a pair as
  a uniqueness violation, but \<^verbatim>\<open>POST /api/favorites\<close> answers it exactly as it answers
  a request without a product id, which the store refuses for another reason.
\<close>

theorem duplicate_favorite_generic_failure:
  "fst (addToFavorites 3 \<lparr> if_userId = ''alice'', if_productId = Some 7 \<rparr>
          (snd (addToFavorites 2 \<lparr> if_userId = ''alice'', if_productId = Some 7 \<rparr> lamp_store)))
     = Inl UniqueViolation
   \<and> fst (post_api_favorites 3 ''alice'' (Some 7)
          (snd (addToFavorites 2 \<lparr> if_userId = ''alice'', if_productId = Some 7 \<rparr> lamp_store)))
     = Status 500 ''Failed to add to favorites''
   \<and> fst (addToFavorites 3 \<lparr> if_userId = ''alice'', if_productId = None \<rparr>
          (snd (addToFavorites 2 \<lparr> if_userId = ''alice'', if_productId = Some 7 \<rparr> lamp_store)))
     = Inl NotNullViolation
   \<and> fst (post_api_favorites 3 ''alice'' None
          (snd (addToFavorites 2 \<lparr> if_userId = ''alice'', if_productId = Some 7 \<rparr> lamp_store)))
     = Status 500 ''Failed to add to favorites''"
  by (simp add: post_api_favorites_def addToFavorites_def lamp_store_def empty_store_def
        demo_product_def Let_def int4_def)

text \<open>
  C7, amended. After an \<^verbatim>\<open>addToFavorites\<close> of a pair that went through, the next one
  for the same pair is refused by the store as a uniqueness violation, and
  \<^verbatim>\<open>POST /api/favorites\<close> answers status 500 with its fixed message. The handler
  gives that same answer to every refusal, and a refused add leaves the favorites and
  the products as they were. The store refuses the pair for as long as its row is in
  the table.
\<close>

theorem duplicate_favorite_refused:
  "(\<forall>f s1. addToFavorites t1 \<lparr> if_userId = u, if_productId = Some p \<rparr> s = (Inr f, s1) \<longrightarrow>
      addToFavorites t2 \<lparr> if_userId = u, if_productId = Some p \<rparr> s1
        = (Inl UniqueViolation, s1\<lparr>favorites_id_seq := favorites_id_seq s1 + 1\<rparr>)
      \<and> post_api_favorites t2 u (Some p) s1
        = (Status 500 ''Failed to add to favorites'',
           s1\<lparr>favorites_id_seq := favorites_id_seq s1 + 1\<rparr>))
   \<and> (\<forall>e s'. addToFavorites t2 \<lparr> if_userId = u, if_productId = q \<rparr> s = (Inl e, s') \<longrightarrow>
        post_api_favorites t2 u q s = (Status 500 ''Failed to add to favorites'', s')
        \<and> favorites s' = favorites s \<and> products s' = products s)
   \<and> (list_ex (\<lambda>f. f_userId f = u \<and> f_productId f = p) (favorites s) \<and> int4 p \<longrightarrow>
        addToFavorites t2 \<lparr> if_userId = u, if_productId = Some p \<rparr> s
          = (Inl UniqueViolation, s\<lparr>favorites_id_seq := favorites_id_seq s + 1\<rparr>))"
proof (intro conjI allI impI)
  assume "list_ex (\<lambda>f. f_userId f = u \<and> f_productId f = p) (favorites s) \<and> int4 p"
  then show "addToFavorites t2 \<lparr> if_userId = u, if_productId = Some p \<rparr> s
          = (Inl UniqueViolation, s\<lparr>favorites_id_seq := favorites_id_seq s + 1\<rparr>)"
    using addToFavorites_duplicate by blast
next
  fix f s1
  assume "addToFavorites t1 \<lparr> if_userId = u, if_productId = Some p \<rparr> s = (Inr f, s1)"
  then have "list_ex (\<lambda>f. f_userId f = u \<and> f_productId f = p) (favorites s1)" and "int4 p"
    using addToFavorites_success_row by blast+
  then show dup: "addToFavorites t2 \<lparr> if_userId = u, if_productId = Some p \<rparr> s1
        = (Inl UniqueViolation, s1\<lparr>favorites_id_seq := favorites_id_seq s1 + 1\<rparr>)"
    by (rule addToFavorites_duplicate)
  then show "post_api_favorites t2 u (Some p) s1
        = (Status 500 ''Failed to add to favorites'',
           s1\<lparr>favorites_id_seq := favorites_id_seq s1 + 1\<rparr>)"
    by (simp add: post_api_favorites_def)
next
  fix e s'
  assume a: "addToFavorites t2 \<lparr> if_userId = u, if_productId = q \<rparr> s = (Inl e, s')"
  then show "post_api_favorites t2 u q s = (Status 500 ''Failed to add to favorites'', s')"
    by (simp add: post_api_favorites_def)
  from a show "favorites s' = favorites s" and "products s' = products s"
    using addToFavorites_fail_tables by blast+
qed

theorem duplicate_favorite_refused_witness:
  "post_api_favorites 3 ''alice'' (Some 7) (snd (post_api_favorites 2 ''alice'' (Some 7) lamp_store))
   = (Status 500 ''Failed to add to favorites'',
      lamp_store
        \<lparr> products := [demo_product 7 ''bob'' (Some True) (Some 1) (Some 1)],
          favorites := [\<lparr> f_id = 1, f_userId = ''alice'', f_productId = 7, f_createdAt = Some 2 \<rparr>],
          favorites_id_seq := 3 \<rparr>)"
  using duplicate_favorite_refused[of 2 "''alice''" 7 lamp_store 3 None]
  by (simp add: post_api_favorites_def addToFavorites_def lamp_store_def empty_store_def
        demo_product_def Let_def int4_def)

subsection \<open>Recommended products\<close>









end
